theory Spec2Isabelle
  imports Complex_Main "HOL-Library.Multiset"
begin

section \<open>DueDesk backend: payment status, aggregation and the payment mutation\<close>

text \<open>
  The development embeds the business logic of \<^verbatim>\<open>duedesk-backend/index.js\<close>:
  the helper \<^verbatim>\<open>calculateCustomerDetails\<close>, the summaries computed by
  \<^verbatim>\<open>GET /api/customers\<close> and \<^verbatim>\<open>GET /api/dashboard/summary\<close>, and the handler of
  \<^verbatim>\<open>PATCH /api/customers/:id/payment\<close>.

  Numbers. A JavaScript number is an IEEE-754 binary64 value: a finite number, one of
  the two infinities or \<^verbatim>\<open>NaN\<close>. Every arithmetic operation of the code is modelled
  with its rounding (to the nearest double, a tie to the even significand, overflow to
  an infinity). The two zeros are one value: they compare equal, and the only
  operation that tells them apart, a division by zero, is never reached by the code
  (the percentage divides only by an amount above 0, the mean only by a length above
  0, the rounding by 100).

  The database. The \<^verbatim>\<open>customers\<close> table is a list of rows; its \<^verbatim>\<open>REAL\<close> columns
  hold a finite double or an infinity as it is. A \<^verbatim>\<open>NaN\<close> is not a value of JSON,
  and adding amounts that are not negative makes none (\<open>js_add_ge_zero\<close>), so the
  theorems about the payment mutation are stated for amounts that are not
  negative. A timestamp is the integer that \<^verbatim>\<open>new Date(...)\<close> reads from the stored
  text. The statements the handlers run never fail in the model, so
  the \<^verbatim>\<open>500\<close> branches that report a database error are not reached.
\<close>

subsection \<open>JavaScript numbers\<close>

datatype double = Fin real | PInf | NInf | NaN

text \<open>
  The binary exponent of a magnitude, never below that of the subnormal numbers:
  the first \<open>k\<close> from \<open>-1022\<close> on with \<open>x < 2 ^ (k + 1)\<close>.
\<close>

fun expo_from :: "nat \<Rightarrow> int \<Rightarrow> real \<Rightarrow> int" where
  "expo_from 0 k x = k"
| "expo_from (Suc n) k x = (if x < 2 powi (k + 1) then k else expo_from n (k + 1) x)"

definition expo :: "real \<Rightarrow> int" where
  "expo x = expo_from 2046 (- 1022) \<bar>x\<bar>"

definition round_half_even :: "real \<Rightarrow> int" where
  "round_half_even t =
     (let n = \<lfloor>t\<rfloor>; d = t - of_int n
      in if d < 1 / 2 then n else if d > 1 / 2 then n + 1 else if even n then n else n + 1)"

text \<open>
  The double nearest to a real: a multiple of \<open>2 ^ (e - 52)\<close> for the exponent
  \<open>e\<close> of the real, an infinity from \<open>2 ^ 1024\<close> on.
\<close>

definition round64 :: "real \<Rightarrow> double" where
  "round64 x =
     (let q = 2 powi (expo x - 52);
          y = of_int (round_half_even (x / q)) * q
      in if \<bar>y\<bar> \<ge> 2 powi 1024 then (if x > 0 then PInf else NInf) else Fin y)"

text \<open>The sign of a number that is not \<^verbatim>\<open>NaN\<close>, and the infinity of a sign.\<close>

definition sgn_of :: "double \<Rightarrow> real" where
  "sgn_of a = (case a of Fin x \<Rightarrow> sgn x | PInf \<Rightarrow> 1 | NInf \<Rightarrow> - 1 | NaN \<Rightarrow> 0)"

definition signed_inf :: "real \<Rightarrow> double" where
  "signed_inf s = (if s > 0 then PInf else if s < 0 then NInf else NaN)"

fun js_neg :: "double \<Rightarrow> double" where
  "js_neg (Fin x) = Fin (- x)"
| "js_neg PInf = NInf"
| "js_neg NInf = PInf"
| "js_neg NaN = NaN"

text \<open>\<^verbatim>\<open>a + b\<close> and \<^verbatim>\<open>a - b\<close>.\<close>

fun js_add :: "double \<Rightarrow> double \<Rightarrow> double" where
  "js_add NaN b = NaN"
| "js_add a NaN = NaN"
| "js_add (Fin x) (Fin y) = round64 (x + y)"
| "js_add PInf NInf = NaN"
| "js_add NInf PInf = NaN"
| "js_add PInf b = PInf"
| "js_add NInf b = NInf"
| "js_add (Fin x) b = b"

definition js_sub :: "double \<Rightarrow> double \<Rightarrow> double" where
  "js_sub a b = js_add a (js_neg b)"

text \<open>\<^verbatim>\<open>a * b\<close>: an infinity times zero is \<^verbatim>\<open>NaN\<close>.\<close>

fun js_mul :: "double \<Rightarrow> double \<Rightarrow> double" where
  "js_mul NaN b = NaN"
| "js_mul a NaN = NaN"
| "js_mul (Fin x) (Fin y) = round64 (x * y)"
| "js_mul a b = signed_inf (sgn_of a * sgn_of b)"

text \<open>
  \<^verbatim>\<open>a / b\<close>: two infinities give \<^verbatim>\<open>NaN\<close>, a finite number over an infinity gives
  zero. The divisor zero is read as the positive zero.
\<close>

fun js_div :: "double \<Rightarrow> double \<Rightarrow> double" where
  "js_div NaN b = NaN"
| "js_div a NaN = NaN"
| "js_div (Fin x) (Fin y) = (if y = 0 then signed_inf x else round64 (x / y))"
| "js_div (Fin x) b = Fin 0"
| "js_div a (Fin y) = signed_inf (sgn_of a * (if y < 0 then - 1 else 1))"
| "js_div a b = NaN"

text \<open>The comparisons: each is false when an operand is \<^verbatim>\<open>NaN\<close>.\<close>

fun js_lt :: "double \<Rightarrow> double \<Rightarrow> bool" where
  "js_lt NaN b = False"
| "js_lt a NaN = False"
| "js_lt (Fin x) (Fin y) = (x < y)"
| "js_lt (Fin x) PInf = True"
| "js_lt NInf (Fin y) = True"
| "js_lt NInf PInf = True"
| "js_lt a b = False"

definition js_eq :: "double \<Rightarrow> double \<Rightarrow> bool" where
  "js_eq a b = (a \<noteq> NaN \<and> a = b)"

definition js_gt :: "double \<Rightarrow> double \<Rightarrow> bool" where
  "js_gt a b = js_lt b a"

definition js_le :: "double \<Rightarrow> double \<Rightarrow> bool" where
  "js_le a b = (js_lt a b \<or> js_eq a b)"

definition js_ge :: "double \<Rightarrow> double \<Rightarrow> bool" where
  "js_ge a b = js_le b a"

text \<open>
  \<^verbatim>\<open>Math.max\<close> and \<^verbatim>\<open>Math.min\<close> of two numbers: \<^verbatim>\<open>NaN\<close> when one of them is.
\<close>

definition Math_max :: "double \<Rightarrow> double \<Rightarrow> double" where
  "Math_max a b = (if a = NaN \<or> b = NaN then NaN else if js_lt a b then b else a)"

definition Math_min :: "double \<Rightarrow> double \<Rightarrow> double" where
  "Math_min a b = (if a = NaN \<or> b = NaN then NaN else if js_lt b a then b else a)"

text \<open>
  \<^verbatim>\<open>Math.round(x)\<close>: the integer nearest to \<open>x\<close>, a half rounded up. For a double
  the result is a double again, so no rounding follows.
\<close>

fun Math_round :: "double \<Rightarrow> double" where
  "Math_round (Fin x) = Fin (of_int \<lfloor>x + 1 / 2\<rfloor>)"
| "Math_round a = a"

text \<open>The length of an array as a number.\<close>

definition js_of_nat :: "nat \<Rightarrow> double" where
  "js_of_nat n = round64 (real n)"

subsection \<open>Rows of the customers table and their derived view\<close>

record customer =
  customer_id :: int
  name :: string
  number :: string
  email :: string
  amountToPay :: double
  amountPaid :: double
  createdAt :: int
  updatedAt :: int

record customer_details = customer +
  amountRemaining :: double
  overpayment :: double
  paymentStatus :: string
  paymentPercentage :: double

text \<open>
  \<^verbatim>\<open>calculateCustomerDetails(customer)\<close>: the row is spread into the result, and the
  four derived fields are added.
\<close>

definition calculateCustomerDetails :: "customer \<Rightarrow> customer_details" where
  "calculateCustomerDetails customer =
     (let amountRemaining =
            Math_max (Fin 0) (js_sub (amountToPay customer) (amountPaid customer));
          overpayment =
            Math_max (Fin 0) (js_sub (amountPaid customer) (amountToPay customer));
          paymentStatus =
            (if js_eq (amountPaid customer) (Fin 0) then ''Not Paid''
             else if js_ge (amountPaid customer) (amountToPay customer)
               then (if js_gt (amountPaid customer) (amountToPay customer)
                     then ''Overpaid'' else ''Paid'')
             else ''Partially Paid'')
      in \<lparr> customer_id = customer_id customer,
           name = name customer,
           number = number customer,
           email = email customer,
           amountToPay = amountToPay customer,
           amountPaid = amountPaid customer,
           createdAt = createdAt customer,
           updatedAt = updatedAt customer,
           amountRemaining = amountRemaining,
           overpayment = overpayment,
           paymentStatus = paymentStatus,
           paymentPercentage =
             (if js_gt (amountToPay customer) (Fin 0)
              then Math_min (Fin 100)
                     (js_mul (js_div (amountPaid customer) (amountToPay customer)) (Fin 100))
              else Fin 0) \<rparr>)"

text \<open>A row with the two amounts given, for the concrete instances below.\<close>

definition example_customer :: "int \<Rightarrow> double \<Rightarrow> double \<Rightarrow> customer" where
  "example_customer i toPay paid =
     \<lparr> customer_id = i, name = ''Asha'', number = ''5550100'', email = ''asha@example.org'',
       amountToPay = toPay, amountPaid = paid, createdAt = 1000, updatedAt = 1000 \<rparr>"

text \<open>
  The doubles nearest to 6422.94, 1194.06, 0.1 and 0.2: what \<^verbatim>\<open>JSON.parse\<close> reads
  from these literals.
\<close>

definition d_6422_94 :: real where
  "d_6422_94 = 7062097214507581 / 2 ^ 40"

definition d_1194_06 :: real where
  "d_1194_06 = 5251531417048842 / 2 ^ 42"

definition d_0_1 :: real where
  "d_0_1 = 7205759403792794 / 2 ^ 56"

definition d_0_2 :: real where
  "d_0_2 = 7205759403792794 / 2 ^ 55"

text \<open>
  The four conditions of the specification, each with the status it names, in the
  order the specification lists them.
\<close>

definition spec_status_conditions :: "double \<Rightarrow> double \<Rightarrow> (string \<times> bool) list" where
  "spec_status_conditions toPay paid =
     [(''Not Paid'', js_eq paid (Fin 0)),
      (''Partially Paid'', js_gt paid (Fin 0) \<and> js_lt paid toPay),
      (''Paid'', js_eq paid toPay \<and> js_gt toPay (Fin 0)),
      (''Overpaid'', js_gt paid toPay)]"

subsection \<open>The summaries\<close>

text \<open>
  \<^verbatim>\<open>xs.reduce((sum, c) => sum + c.field, 0)\<close>: a left fold from 0, each step a
  rounded addition.
\<close>

definition reduce_sum :: "('a \<Rightarrow> double) \<Rightarrow> 'a list \<Rightarrow> double" where
  "reduce_sum field xs = foldl (\<lambda>sum c. js_add sum (field c)) (Fin 0) xs"

text \<open>\<^verbatim>\<open>Math.round(x * 100) / 100\<close>.\<close>

definition round_cents :: "double \<Rightarrow> double" where
  "round_cents x = js_div (Math_round (js_mul x (Fin 100))) (Fin 100)"

definition validStatuses :: "string list" where
  "validStatuses = [''Not Paid'', ''Partially Paid'', ''Paid'', ''Overpaid'']"

definition count_status :: "customer_details list \<Rightarrow> string \<Rightarrow> nat" where
  "count_status customersWithDetails s =
     length (filter (\<lambda>c. paymentStatus c = s) customersWithDetails)"

text \<open>The \<^verbatim>\<open>statusCounts\<close> object: its four keys in order, each with its count.\<close>

definition statusCounts_of :: "customer_details list \<Rightarrow> (string \<times> nat) list" where
  "statusCounts_of customersWithDetails =
     [(''Not Paid'', count_status customersWithDetails ''Not Paid''),
      (''Partially Paid'', count_status customersWithDetails ''Partially Paid''),
      (''Paid'', count_status customersWithDetails ''Paid''),
      (''Overpaid'', count_status customersWithDetails ''Overpaid'')]"

record summary =
  totalCustomers :: nat
  totalAmountToPay :: double
  totalAmountPaid :: double
  totalAmountRemaining :: double
  totalOverpayment :: double
  statusCounts :: "(string \<times> nat) list"

record dashboard = summary +
  recentCustomers :: "customer_details list"
  overdueCustomers :: "customer_details list"
  collectionEfficiency :: double

text \<open>
  \<^verbatim>\<open>GET /api/customers\<close>, from the rows the query returned: the derived view of
  each row, filtered by the \<^verbatim>\<open>status\<close> parameter when it is given, not empty and
  one of the four status values.
\<close>

definition customers_data :: "customer list \<Rightarrow> string option \<Rightarrow> customer_details list" where
  "customers_data rows status =
     (let customersWithDetails = map calculateCustomerDetails rows
      in case status of
           None \<Rightarrow> customersWithDetails
         | Some s \<Rightarrow>
             if s \<noteq> [] \<and> s \<in> set validStatuses
             then filter (\<lambda>customer. paymentStatus customer = s) customersWithDetails
             else customersWithDetails)"

definition customers_summary :: "customer list \<Rightarrow> string option \<Rightarrow> summary" where
  "customers_summary rows status =
     (let customersWithDetails = customers_data rows status;
          totalCustomers = length customersWithDetails;
          totalAmountToPay = reduce_sum amountToPay customersWithDetails;
          totalAmountPaid = reduce_sum amountPaid customersWithDetails;
          totalAmountRemaining = reduce_sum amountRemaining customersWithDetails;
          totalOverpayment = reduce_sum overpayment customersWithDetails;
          statusCounts = statusCounts_of customersWithDetails
      in \<lparr> totalCustomers = totalCustomers,
           totalAmountToPay = round_cents totalAmountToPay,
           totalAmountPaid = round_cents totalAmountPaid,
           totalAmountRemaining = round_cents totalAmountRemaining,
           totalOverpayment = round_cents totalOverpayment,
           statusCounts = statusCounts \<rparr>)"

text \<open>
  \<^verbatim>\<open>customersWithDetails.sort((a, b) => new Date(b.createdAt) - new Date(a.createdAt))\<close>:
  a stable sort, the newest row first. It sorts the array in place, so what the
  handler computes after it reads the sorted array.
\<close>

definition sort_newest_first :: "customer_details list \<Rightarrow> customer_details list" where
  "sort_newest_first customersWithDetails = sort_key (\<lambda>c. - createdAt c) customersWithDetails"

text \<open>
  \<^verbatim>\<open>GET /api/dashboard/summary\<close>, from all rows of the table. The totals and the
  counts are read before the sort, the overdue customers and the collection
  efficiency after it; the four totals and the efficiency are then rounded.
\<close>

definition dashboard_summary :: "customer list \<Rightarrow> dashboard" where
  "dashboard_summary rows =
     (let customersWithDetails = map calculateCustomerDetails rows;
          totalCustomers = length customersWithDetails;
          totalAmountToPay = reduce_sum amountToPay customersWithDetails;
          totalAmountPaid = reduce_sum amountPaid customersWithDetails;
          totalAmountRemaining = reduce_sum amountRemaining customersWithDetails;
          totalOverpayment = reduce_sum overpayment customersWithDetails;
          statusCounts = statusCounts_of customersWithDetails;
          customersWithDetails = sort_newest_first customersWithDetails;
          recentCustomers = take 5 customersWithDetails;
          overdueCustomers =
            filter (\<lambda>c. paymentStatus c = ''Not Paid'' \<and> js_gt (amountToPay c) (Fin 0))
              customersWithDetails;
          collectionEfficiency =
            (if length customersWithDetails > 0
             then js_div (reduce_sum paymentPercentage customersWithDetails)
                    (js_of_nat (length customersWithDetails))
             else Fin 0)
      in \<lparr> totalCustomers = totalCustomers,
           totalAmountToPay = round_cents totalAmountToPay,
           totalAmountPaid = round_cents totalAmountPaid,
           totalAmountRemaining = round_cents totalAmountRemaining,
           totalOverpayment = round_cents totalOverpayment,
           statusCounts = statusCounts,
           recentCustomers = recentCustomers,
           overdueCustomers = overdueCustomers,
           collectionEfficiency = round_cents collectionEfficiency \<rparr>)"

text \<open>
  The arithmetic mean as the specification words it, on exact numbers: the sum over
  the count.
\<close>

definition spec_arithmetic_mean :: "real list \<Rightarrow> real" where
  "spec_arithmetic_mean xs = sum_list xs / real (length xs)"

text \<open>
  The mean as the code computes it: the numbers added from left to right, each
  addition rounded, and the sum divided by the count.
\<close>

definition double_mean :: "double list \<Rightarrow> double" where
  "double_mean xs = js_div (foldl js_add (Fin 0) xs) (js_of_nat (length xs))"

subsection \<open>The payment mutation\<close>

text \<open>
  A value of a JSON request body, as \<^verbatim>\<open>JSON.parse\<close> returns it: a number is a
  double, and a literal beyond the range of the doubles, as \<^verbatim>\<open>1e400\<close>, is an infinity.
\<close>

datatype json =
  JNull
| JBool bool
| JNum double
| JStr string
| JArr "json list"
| JObj "(string \<times> json) list"

text \<open>
  The two fields the handler reads from \<^verbatim>\<open>req.body\<close>; \<open>None\<close> is a field the
  body does not have (\<^verbatim>\<open>undefined\<close>).
\<close>

record payment_body =
  paymentAmount :: "json option"
  paymentType :: "json option"

text \<open>
  The responses that are not a success: status 400 is a \<open>ValidationError\<close> and
  status 404 a \<open>NotFoundError\<close>, each with the text of its \<^verbatim>\<open>error\<close> field.
  \<open>StoreError\<close> stands for the failure of the handler when the row it updated is
  gone as it reads it back; \<open>db_get_after_update\<close> shows that the model never
  reaches it.
\<close>

datatype error =
  ValidationError string
| NotFoundError string
| StoreError string

record payment_response =
  data :: customer_details
  message :: string

text \<open>\<^verbatim>\<open>SELECT * FROM customers WHERE id = ?\<close> through \<^verbatim>\<open>db.get\<close>: the first row found.\<close>

definition db_get :: "customer list \<Rightarrow> int \<Rightarrow> customer option" where
  "db_get table i = find (\<lambda>row. customer_id row = i) table"

text \<open>
  \<^verbatim>\<open>UPDATE customers SET amountPaid = ?, updatedAt = CURRENT_TIMESTAMP WHERE id = ?\<close>.
\<close>

definition db_update_amountPaid :: "customer list \<Rightarrow> double \<Rightarrow> int \<Rightarrow> int \<Rightarrow> customer list" where
  "db_update_amountPaid table newAmountPaid now i =
     map (\<lambda>row. if customer_id row = i
                then row\<lparr>amountPaid := newAmountPaid, updatedAt := now\<rparr>
                else row) table"

text \<open>
  \<^verbatim>\<open>app.patch('/api/customers/:id/payment')\<close>. \<open>customerId\<close> is what
  \<^verbatim>\<open>parseInt(req.params.id)\<close> returned (\<open>None\<close> for \<^verbatim>\<open>NaN\<close>), \<open>now\<close> the current
  timestamp. The result is the response and the table after the request.
\<close>

definition patch_payment ::
  "int \<Rightarrow> customer list \<Rightarrow> int option \<Rightarrow> payment_body \<Rightarrow> (error + payment_response) \<times> customer list"
where
  "patch_payment now table customerId body =
     (let paymentType = (case paymentType body of None \<Rightarrow> JStr ''add'' | Some v \<Rightarrow> v)
      in case customerId of
           None \<Rightarrow> (Inl (ValidationError ''Valid customer ID is required''), table)
         | Some i \<Rightarrow>
             if i = 0 then (Inl (ValidationError ''Valid customer ID is required''), table)
             else
               (case paymentAmount body of
                  Some (JNum amount) \<Rightarrow>
                    if js_lt amount (Fin 0)
                    then (Inl (ValidationError ''Payment amount must be a positive number''), table)
                    else
                      (case db_get table i of
                         None \<Rightarrow> (Inl (NotFoundError ''Customer not found''), table)
                       | Some customer \<Rightarrow>
                           (let newAmountPaid =
                                  (if paymentType = JStr ''set'' then amount
                                   else js_add (amountPaid customer) amount);
                                table' = db_update_amountPaid table newAmountPaid now i
                            in case db_get table' i of
                                 None \<Rightarrow> (Inl (StoreError ''Customer not found''), table')
                               | Some updatedCustomer \<Rightarrow>
                                   (Inr \<lparr> data = calculateCustomerDetails updatedCustomer,
                                          message = ''Payment ''
                                            @ (if paymentType = JStr ''add'' then ''added''
                                               else ''updated'')
                                            @ '' successfully'' \<rparr>,
                                    table')))
                | _ \<Rightarrow>
                    (Inl (ValidationError ''Payment amount must be a positive number''), table)))"

text \<open>Whether a response is a success, and the amount a table stores for an id.\<close>

definition accepted :: "error + payment_response \<Rightarrow> bool" where
  "accepted response = (case response of Inl _ \<Rightarrow> False | Inr _ \<Rightarrow> True)"

definition response_amountPaid :: "error + payment_response \<Rightarrow> double option" where
  "response_amountPaid response =
     (case response of Inl _ \<Rightarrow> None | Inr r \<Rightarrow> Some (amountPaid (data r)))"

definition stored_amountPaid :: "customer list \<Rightarrow> int \<Rightarrow> double option" where
  "stored_amountPaid table i = map_option amountPaid (db_get table i)"

section \<open>Properties\<close>

subsection \<open>Rounding\<close>

lemma expo_from_eq:
  "k \<le> m \<Longrightarrow> m \<le> k + int n \<Longrightarrow> m = k \<or> 2 powi m \<le> x
     \<Longrightarrow> x < 2 powi (m + 1) \<or> m = k + int n \<Longrightarrow> expo_from n k x = m"
proof (induction n arbitrary: k)
  case 0
  then show ?case by simp
next
  case (Suc n)
  show ?case
  proof (cases "m = k")
    case True
    with Suc.prems show ?thesis by simp
  next
    case False
    with Suc.prems have le: "2 powi m \<le> x" and km: "k + 1 \<le> m" by auto
    have "(2::real) powi (k + 1) \<le> 2 powi m"
      using km by (intro power_int_increasing) auto
    with le have nlt: "\<not> x < 2 powi (k + 1)" by linarith
    have "expo_from n (k + 1) x = m"
      using Suc.prems km le by (intro Suc.IH) auto
    with nlt show ?thesis by simp
  qed
qed

lemma expo_from_lower: "expo_from n k x = k \<or> 2 powi (expo_from n k x) \<le> x"
proof (induction n arbitrary: k)
  case 0
  show ?case by simp
next
  case (Suc n)
  show ?case
  proof (cases "x < 2 powi (k + 1)")
    case True
    then show ?thesis by simp
  next
    case False
    from Suc.IH [of "k + 1"] False show ?thesis by auto
  qed
qed

lemma expo_eq:
  assumes "- 1022 \<le> k" and "k \<le> 1023" and "2 powi k \<le> \<bar>x\<bar>" and "\<bar>x\<bar> < 2 powi (k + 1)"
  shows "expo x = k"
  unfolding expo_def using assms by (intro expo_from_eq) auto

lemma expo_lower: "expo x = - 1022 \<or> 2 powi (expo x) \<le> \<bar>x\<bar>"
  unfolding expo_def by (rule expo_from_lower)

text \<open>How a rounding is evaluated once the exponent of the real is known.\<close>

lemma round64_at:
  assumes "- 1022 \<le> k" and "k \<le> 1023" and "2 powi k \<le> \<bar>x\<bar>" and "\<bar>x\<bar> < 2 powi (k + 1)"
    and "round_half_even (x / 2 powi (k - 52)) = n"
    and "\<bar>of_int n * 2 powi (k - 52)\<bar> < (2::real) powi 1024"
  shows "round64 x = Fin (of_int n * 2 powi (k - 52))"
  using assms(5,6) by (simp add: round64_def Let_def expo_eq [OF assms(1-4)])

lemma round_half_even_error: "\<bar>of_int (round_half_even t) - t\<bar> \<le> 1 / 2"
proof -
  have "of_int \<lfloor>t\<rfloor> \<le> t" and "t < of_int \<lfloor>t\<rfloor> + 1"
    by linarith+
  then show ?thesis
    by (auto simp add: round_half_even_def Let_def)
qed

lemma round_half_even_nonneg: "0 \<le> t \<Longrightarrow> 0 \<le> round_half_even t"
  by (auto simp add: round_half_even_def Let_def)

lemma round_half_even_nonpos: "t \<le> 0 \<Longrightarrow> round_half_even t \<le> 0"
proof -
  assume t: "t \<le> 0"
  show ?thesis
  proof (cases "t = 0")
    case True
    then show ?thesis by (simp add: round_half_even_def)
  next
    case False
    with t have "t < 0" by simp
    then have "\<lfloor>t\<rfloor> \<le> - 1" by linarith
    then show ?thesis by (auto simp add: round_half_even_def Let_def)
  qed
qed

lemma round64_zero: "round64 0 = Fin 0"
  by (simp add: round64_def round_half_even_def)

lemma round64_nonneg:
  assumes "0 \<le> x"
  shows "round64 x = PInf \<or> (\<exists>y. round64 x = Fin y \<and> 0 \<le> y)"
proof (cases "x = 0")
  case True
  then show ?thesis by (simp add: round64_zero)
next
  case False
  with assms have pos: "0 < x" by simp
  define q :: real where "q = 2 powi (expo x - 52)"
  have q: "0 < q" by (simp add: q_def)
  with pos have "0 \<le> x / q" by simp
  then have "0 \<le> round_half_even (x / q)" by (rule round_half_even_nonneg)
  with q have "0 \<le> of_int (round_half_even (x / q)) * q" by simp
  with pos show ?thesis
    by (simp add: round64_def Let_def q_def)
qed

lemma round64_nonpos:
  assumes "x \<le> 0"
  shows "round64 x = NInf \<or> (\<exists>y. round64 x = Fin y \<and> y \<le> 0)"
proof -
  define q :: real where "q = 2 powi (expo x - 52)"
  have q: "0 < q" by (simp add: q_def)
  with assms have "x / q \<le> 0" by (simp add: divide_nonpos_pos)
  then have "round_half_even (x / q) \<le> 0" by (rule round_half_even_nonpos)
  with q have "of_int (round_half_even (x / q)) * q \<le> 0"
    by (simp add: mult_nonpos_nonneg)
  with assms show ?thesis
    by (simp add: round64_def Let_def q_def)
qed

text \<open>
  The error of a rounding that does not overflow: at most the fraction \<open>2 ^ -53\<close> of
  the real, and at most \<open>2 ^ -1075\<close> below the normal numbers.
\<close>

lemma round64_error:
  assumes "round64 x = Fin y"
  shows "\<bar>y - x\<bar> \<le> \<bar>x\<bar> / 2 ^ 53 + 2 powi (- 1075)"
proof -
  define q :: real where "q = 2 powi (expo x - 52)"
  define n where "n = round_half_even (x / q)"
  have q: "0 < q" by (simp add: q_def)
  from assms have y: "y = of_int n * q"
    by (simp add: round64_def Let_def q_def n_def split: if_splits)
  have "\<bar>of_int n - x / q\<bar> \<le> 1 / 2"
    unfolding n_def by (rule round_half_even_error)
  then have "\<bar>of_int n - x / q\<bar> * q \<le> 1 / 2 * q"
    using q by (intro mult_right_mono) simp_all
  moreover have "\<bar>of_int n - x / q\<bar> * q = \<bar>of_int n * q - x\<bar>"
  proof -
    have "\<bar>of_int n - x / q\<bar> * q = \<bar>(of_int n - x / q) * q\<bar>"
      using q by (simp add: abs_mult)
    also have "(of_int n - x / q) * q = of_int n * q - x"
      using q by (simp add: field_simps)
    finally show ?thesis .
  qed
  ultimately have half: "\<bar>y - x\<bar> \<le> q / 2"
    by (simp add: y)
  have split: "q / 2 = 2 powi (expo x) / 2 ^ 53"
  proof -
    have "q = 2 powi (expo x) / 2 powi 52"
      unfolding q_def by (rule power_int_diff) simp
    then show ?thesis by simp
  qed
  from expo_lower [of x] show ?thesis
  proof
    assume "expo x = - 1022"
    then have "q / 2 = 2 powi (- 1075)"
      by (simp add: q_def power_int_minus field_simps)
    with half have "\<bar>y - x\<bar> \<le> 2 powi (- 1075)" by simp
    moreover have "0 \<le> \<bar>x\<bar> / 2 ^ 53" by simp
    ultimately show ?thesis by linarith
  next
    assume "2 powi (expo x) \<le> \<bar>x\<bar>"
    then have "2 powi (expo x) / 2 ^ 53 \<le> \<bar>x\<bar> / 2 ^ 53"
      by (simp add: divide_right_mono)
    with half split have "\<bar>y - x\<bar> \<le> \<bar>x\<bar> / 2 ^ 53" by simp
    moreover have "(0::real) \<le> 2 powi (- 1075)" by simp
    ultimately show ?thesis by linarith
  qed
qed

subsection \<open>Comparisons\<close>

lemmas js_compare = js_eq_def js_gt_def js_le_def js_ge_def

lemma js_ge_zero_iff: "js_ge d (Fin 0) \<longleftrightarrow> d = PInf \<or> (\<exists>z. d = Fin z \<and> 0 \<le> z)"
  by (cases d) (auto simp add: js_compare)

lemma js_gt_zero_iff: "js_gt d (Fin 0) \<longleftrightarrow> d = PInf \<or> (\<exists>z. d = Fin z \<and> 0 < z)"
  by (cases d) (auto simp add: js_compare)

lemma round64_ge_zero: "0 \<le> x \<Longrightarrow> js_ge (round64 x) (Fin 0)"
  using round64_nonneg [of x] by (auto simp add: js_ge_zero_iff)

lemma Math_max_zero_nonpos:
  "d = NInf \<or> (\<exists>y. d = Fin y \<and> y \<le> 0) \<Longrightarrow> Math_max (Fin 0) d = Fin 0"
  by (auto simp add: Math_max_def)

lemma Math_max_zero_nonneg: "js_ge d (Fin 0) \<Longrightarrow> Math_max (Fin 0) d = d"
  by (auto simp add: js_ge_zero_iff Math_max_def)

subsection \<open>Fields of the derived view\<close>

lemma details_amountToPay: "amountToPay (calculateCustomerDetails c) = amountToPay c"
  by (simp add: calculateCustomerDetails_def Let_def)

lemma details_amountPaid: "amountPaid (calculateCustomerDetails c) = amountPaid c"
  by (simp add: calculateCustomerDetails_def Let_def)

lemma details_customer_id: "customer_id (calculateCustomerDetails c) = customer_id c"
  by (simp add: calculateCustomerDetails_def Let_def)

lemma details_createdAt: "createdAt (calculateCustomerDetails c) = createdAt c"
  by (simp add: calculateCustomerDetails_def Let_def)

lemma details_amountRemaining:
  "amountRemaining (calculateCustomerDetails c)
     = Math_max (Fin 0) (js_sub (amountToPay c) (amountPaid c))"
  by (simp add: calculateCustomerDetails_def Let_def)

lemma details_overpayment:
  "overpayment (calculateCustomerDetails c)
     = Math_max (Fin 0) (js_sub (amountPaid c) (amountToPay c))"
  by (simp add: calculateCustomerDetails_def Let_def)

lemma details_paymentStatus:
  "paymentStatus (calculateCustomerDetails c) =
     (if js_eq (amountPaid c) (Fin 0) then ''Not Paid''
      else if js_ge (amountPaid c) (amountToPay c)
        then (if js_gt (amountPaid c) (amountToPay c) then ''Overpaid'' else ''Paid'')
      else ''Partially Paid'')"
  by (simp add: calculateCustomerDetails_def Let_def)

lemma details_paymentPercentage:
  "paymentPercentage (calculateCustomerDetails c) =
     (if js_gt (amountToPay c) (Fin 0)
      then Math_min (Fin 100) (js_mul (js_div (amountPaid c) (amountToPay c)) (Fin 100))
      else Fin 0)"
  by (simp add: calculateCustomerDetails_def Let_def)

lemma example_amounts:
  "amountToPay (example_customer i t p) = t" "amountPaid (example_customer i t p) = p"
  "customer_id (example_customer i t p) = i"
  by (simp_all add: example_customer_def)

subsection \<open>The payment status\<close>

text \<open>
  Claim C1. For a row whose two amounts are not negative, the status is
  \<^verbatim>\<open>Not Paid\<close> when nothing was paid (also when nothing is owed), \<^verbatim>\<open>Partially Paid\<close>
  when the amount paid is positive and below the amount owed, \<^verbatim>\<open>Paid\<close> when the
  two amounts are equal and positive, and \<^verbatim>\<open>Overpaid\<close> when more was paid than owed.
  The comparisons are those of the code; an infinite amount is not negative.
\<close>

theorem paymentStatus_by_case:
  assumes "js_ge (amountToPay c) (Fin 0)" and "js_ge (amountPaid c) (Fin 0)"
  shows "(js_eq (amountPaid c) (Fin 0)
            \<longrightarrow> paymentStatus (calculateCustomerDetails c) = ''Not Paid'')
       \<and> (js_gt (amountPaid c) (Fin 0) \<and> js_lt (amountPaid c) (amountToPay c)
            \<longrightarrow> paymentStatus (calculateCustomerDetails c) = ''Partially Paid'')
       \<and> (js_eq (amountPaid c) (amountToPay c) \<and> js_gt (amountToPay c) (Fin 0)
            \<longrightarrow> paymentStatus (calculateCustomerDetails c) = ''Paid'')
       \<and> (js_gt (amountPaid c) (amountToPay c)
            \<longrightarrow> paymentStatus (calculateCustomerDetails c) = ''Overpaid'')"
  using assms
  by (cases "amountToPay c"; cases "amountPaid c")
    (auto simp add: details_paymentStatus js_compare)

theorem paymentStatus_by_case_witness:
  "paymentStatus (calculateCustomerDetails (example_customer 1 (Fin 100) (Fin 0))) = ''Not Paid''
   \<and> paymentStatus (calculateCustomerDetails (example_customer 1 (Fin 0) (Fin 0))) = ''Not Paid''
   \<and> paymentStatus (calculateCustomerDetails (example_customer 1 (Fin 100) (Fin 50)))
       = ''Partially Paid''
   \<and> paymentStatus (calculateCustomerDetails (example_customer 1 (Fin 100) (Fin 100))) = ''Paid''
   \<and> paymentStatus (calculateCustomerDetails (example_customer 1 (Fin 100) (Fin 150)))
       = ''Overpaid''"
  using paymentStatus_by_case [of "example_customer 1 (Fin 100) (Fin 0)"]
    paymentStatus_by_case [of "example_customer 1 (Fin 0) (Fin 0)"]
    paymentStatus_by_case [of "example_customer 1 (Fin 100) (Fin 50)"]
    paymentStatus_by_case [of "example_customer 1 (Fin 100) (Fin 100)"]
    paymentStatus_by_case [of "example_customer 1 (Fin 100) (Fin 150)"]
  by (simp add: example_amounts js_compare)

text \<open>
  Claim C3. For a row whose two amounts are not negative, exactly one of the four
  conditions holds (they exclude each other and leave no pair out), the status
  returned is the one that condition names, and it is one of the four status values.
  The calculator is a function into the derived view: it has no error result.
\<close>

theorem paymentStatus_exactly_one:
  assumes "js_ge (amountToPay c) (Fin 0)" and "js_ge (amountPaid c) (Fin 0)"
  shows "length (filter snd (spec_status_conditions (amountToPay c) (amountPaid c))) = 1
       \<and> map fst (filter snd (spec_status_conditions (amountToPay c) (amountPaid c)))
           = [paymentStatus (calculateCustomerDetails c)]
       \<and> paymentStatus (calculateCustomerDetails c)
           \<in> {''Not Paid'', ''Partially Paid'', ''Paid'', ''Overpaid''}"
  using assms
  by (cases "amountToPay c"; cases "amountPaid c")
    (auto simp add: details_paymentStatus spec_status_conditions_def js_compare)

theorem paymentStatus_exactly_one_witness:
  "filter snd (spec_status_conditions (Fin 100) (Fin 50)) = [(''Partially Paid'', True)]
   \<and> paymentStatus (calculateCustomerDetails (example_customer 1 (Fin 100) (Fin 50)))
       = ''Partially Paid''
   \<and> filter snd (spec_status_conditions (Fin 0) (Fin 0)) = [(''Not Paid'', True)]
   \<and> paymentStatus (calculateCustomerDetails (example_customer 1 (Fin 0) (Fin 0))) = ''Not Paid''"
  using paymentStatus_exactly_one [of "example_customer 1 (Fin 100) (Fin 50)"]
    paymentStatus_exactly_one [of "example_customer 1 (Fin 0) (Fin 0)"]
  by (simp add: example_amounts spec_status_conditions_def js_compare)

subsection \<open>Concrete roundings\<close>

lemma d_6422_94_parsed: "round64 (642294 / 100) = Fin d_6422_94"
  using round64_at [of 12 "642294 / 100" 7062097214507581]
  by (simp add: round_half_even_def power_int_minus d_6422_94_def)

lemma d_1194_06_parsed: "round64 (119406 / 100) = Fin d_1194_06"
  using round64_at [of 10 "119406 / 100" 5251531417048842]
  by (simp add: round_half_even_def power_int_minus d_1194_06_def)

lemma d_0_1_parsed: "round64 (1 / 10) = Fin d_0_1"
  using round64_at [of "- 4" "1 / 10" 7205759403792794]
  by (simp add: round_half_even_def power_int_minus d_0_1_def)

lemma d_0_2_parsed: "round64 (2 / 10) = Fin d_0_2"
  using round64_at [of "- 3" "2 / 10" 7205759403792794]
  by (simp add: round_half_even_def power_int_minus d_0_2_def)

lemma round64_half: "round64 (1 / 2) = Fin (1 / 2)"
  using round64_at [of "- 1" "1 / 2" "2 ^ 52"]
  by (simp add: round_half_even_def power_int_minus)

lemma round64_1: "round64 1 = Fin 1"
  using round64_at [of 0 1 "2 ^ 52"]
  by (simp add: round_half_even_def power_int_minus)

lemma round64_50: "round64 50 = Fin 50"
  using round64_at [of 5 50 7036874417766400]
  by (simp add: round_half_even_def power_int_minus)

lemma round64_80: "round64 80 = Fin 80"
  using round64_at [of 6 80 5629499534213120]
  by (simp add: round_half_even_def power_int_minus)

lemma round64_23_160: "round64 (23 / 160) = Fin (5179139571476070 / 2 ^ 55)"
  using round64_at [of "- 3" "23 / 160" 5179139571476070]
  by (simp add: round_half_even_def power_int_minus)

lemma round64_23_160_100:
  "round64 (5179139571476070 / 2 ^ 55 * 100) = Fin (8092405580431359 / 2 ^ 49)"
  using round64_at [of 3 "5179139571476070 / 2 ^ 55 * 100" 8092405580431359]
  by (simp add: round_half_even_def power_int_minus)

lemma round64_difference:
  "round64 (d_6422_94 - d_1194_06) = Fin (5749214360245370 / 2 ^ 40)"
  using round64_at [of 12 "d_6422_94 - d_1194_06" 5749214360245370]
  by (simp add: round_half_even_def power_int_minus d_6422_94_def d_1194_06_def)

lemma round64_difference_back:
  "round64 (5749214360245370 / 2 ^ 40 + d_1194_06) = Fin (7062097214507580 / 2 ^ 40)"
  using round64_at [of 12 "5749214360245370 / 2 ^ 40 + d_1194_06" 7062097214507580]
  by (simp add: round_half_even_def power_int_minus d_1194_06_def)

lemma round64_above_2_53: "round64 (2 ^ 53 + 1) = Fin (2 ^ 53)"
  using round64_at [of 53 "2 ^ 53 + 1" "2 ^ 52"]
  by (simp add: round_half_even_def power_int_minus)

lemma round64_tenth_fifth: "round64 (d_0_1 + d_0_2) = Fin (5404319552844596 / 2 ^ 54)"
  using round64_at [of "- 2" "d_0_1 + d_0_2" 5404319552844596]
  by (simp add: round_half_even_def power_int_minus d_0_1_def d_0_2_def)

subsection \<open>The percentage\<close>

lemma js_div_ge_zero:
  assumes "js_ge p (Fin 0)" and "js_gt a (Fin 0)" and "\<not> (a = PInf \<and> p = PInf)"
  shows "js_ge (js_div p a) (Fin 0)"
proof -
  from assms(1) consider "p = PInf" | x where "p = Fin x" "0 \<le> x"
    by (auto simp add: js_ge_zero_iff)
  then show ?thesis
  proof cases
    case 1
    with assms(2,3) obtain y where "a = Fin y" "0 < y"
      by (auto simp add: js_gt_zero_iff)
    with 1 show ?thesis
      by (simp add: sgn_of_def signed_inf_def js_compare)
  next
    case 2
    from assms(2) consider "a = PInf" | y where "a = Fin y" "0 < y"
      by (auto simp add: js_gt_zero_iff)
    then show ?thesis
    proof cases
      case 1
      with 2 show ?thesis by (simp add: js_compare)
    next
      case 2
      with \<open>p = Fin x\<close> \<open>0 \<le> x\<close> show ?thesis
        by (simp add: round64_ge_zero)
    qed
  qed
qed

lemma js_mul_100_ge_zero:
  assumes "js_ge d (Fin 0)"
  shows "js_ge (js_mul d (Fin 100)) (Fin 0)"
proof -
  from assms consider "d = PInf" | x where "d = Fin x" "0 \<le> x"
    by (auto simp add: js_ge_zero_iff)
  then show ?thesis
  proof cases
    case 1
    then show ?thesis by (simp add: sgn_of_def signed_inf_def js_compare)
  next
    case 2
    then show ?thesis by (simp add: round64_ge_zero)
  qed
qed

lemma Math_min_100_range:
  assumes "js_ge d (Fin 0)"
  shows "js_le (Fin 0) (Math_min (Fin 100) d) \<and> js_le (Math_min (Fin 100) d) (Fin 100)"
  using assms by (auto simp add: js_ge_zero_iff Math_min_def js_compare)

text \<open>
  Claim C4, as the specification states it: the percentage is the smaller of 100 and
  paid / owed * 100, and lies between 0 and 100. It fails twice. For 23 paid of 160
  the exact value is 14.375 and the code returns 14.374999999999998, since the
  quotient and the product are rounded. For two infinite amounts, which the
  validation lets through, the percentage is \<^verbatim>\<open>NaN\<close>, which is not between 0 and 100.
\<close>

theorem paymentPercentage_counterexample:
  "paymentPercentage (calculateCustomerDetails (example_customer 1 (Fin 160) (Fin 23)))
     \<noteq> Fin (min 100 (23 / 160 * 100))
   \<and> js_ge (amountToPay (example_customer 1 PInf PInf)) (Fin 0)
   \<and> js_ge (amountPaid (example_customer 1 PInf PInf)) (Fin 0)
   \<and> \<not> (js_le (Fin 0)
            (paymentPercentage (calculateCustomerDetails (example_customer 1 PInf PInf)))
        \<and> js_le (paymentPercentage (calculateCustomerDetails (example_customer 1 PInf PInf)))
            (Fin 100))"
  by (simp add: details_paymentPercentage example_amounts js_compare Math_min_def
      round64_23_160 round64_23_160_100 [simplified])

lemma paymentPercentage_example_values:
  "paymentPercentage (calculateCustomerDetails (example_customer 1 (Fin 160) (Fin 23)))
     = Fin (8092405580431359 / 2 ^ 49)"
  "paymentPercentage (calculateCustomerDetails (example_customer 1 PInf PInf)) = NaN"
  by (simp_all add: details_paymentPercentage example_amounts js_compare Math_min_def
      round64_23_160 round64_23_160_100 [simplified])

text \<open>
  Claim C4, amended. For a row whose two amounts are not negative and not both
  infinite, the percentage is 0 when nothing is owed and otherwise the smaller of
  100 and paid / owed * 100 in the arithmetic of the code, the quotient and the
  product each rounded to the nearest double; it lies between 0 and 100.
\<close>

theorem paymentPercentage_value_and_range:
  assumes "js_ge (amountToPay c) (Fin 0)" and "js_ge (amountPaid c) (Fin 0)"
    and "\<not> (amountToPay c = PInf \<and> amountPaid c = PInf)"
  shows "paymentPercentage (calculateCustomerDetails c)
           = (if js_eq (amountToPay c) (Fin 0) then Fin 0
              else Math_min (Fin 100)
                     (js_mul (js_div (amountPaid c) (amountToPay c)) (Fin 100)))
       \<and> js_le (Fin 0) (paymentPercentage (calculateCustomerDetails c))
       \<and> js_le (paymentPercentage (calculateCustomerDetails c)) (Fin 100)"
proof (cases "js_gt (amountToPay c) (Fin 0)")
  case True
  then have ne: "\<not> js_eq (amountToPay c) (Fin 0)"
    by (auto simp add: js_gt_zero_iff js_eq_def)
  from assms(2) True assms(3)
  have "js_ge (js_div (amountPaid c) (amountToPay c)) (Fin 0)"
    by (rule js_div_ge_zero)
  then have "js_ge (js_mul (js_div (amountPaid c) (amountToPay c)) (Fin 100)) (Fin 0)"
    by (rule js_mul_100_ge_zero)
  from Math_min_100_range [OF this] True ne show ?thesis
    by (simp add: details_paymentPercentage)
next
  case False
  with assms(1) have "js_eq (amountToPay c) (Fin 0)"
    by (auto simp add: js_ge_zero_iff js_gt_zero_iff js_eq_def)
  with False show ?thesis
    by (simp add: details_paymentPercentage js_compare)
qed

theorem paymentPercentage_value_and_range_witness:
  "paymentPercentage (calculateCustomerDetails (example_customer 1 (Fin 100) (Fin 50))) = Fin 50
   \<and> js_le (Fin 0) (Fin 50) \<and> js_le (Fin 50) (Fin 100)
   \<and> paymentPercentage (calculateCustomerDetails (example_customer 1 (Fin 0) (Fin 0))) = Fin 0
   \<and> paymentPercentage (calculateCustomerDetails (example_customer 1 (Fin 0) (Fin 20))) = Fin 0"
  using paymentPercentage_value_and_range [of "example_customer 1 (Fin 100) (Fin 50)"]
    paymentPercentage_value_and_range [of "example_customer 1 (Fin 0) (Fin 0)"]
    paymentPercentage_value_and_range [of "example_customer 1 (Fin 0) (Fin 20)"]
  by (simp add: example_amounts js_compare Math_min_def round64_half round64_50)

subsection \<open>The remaining amount and the overpayment\<close>

lemma js_sub_Fin: "js_sub (Fin a) (Fin p) = round64 (a - p)"
  by (simp add: js_sub_def)

lemma Math_max_zero_round64: "Math_max (Fin 0) (round64 x) = round64 (max 0 x)"
proof (cases "0 \<le> x")
  case True
  then have "Math_max (Fin 0) (round64 x) = round64 x"
    by (intro Math_max_zero_nonneg round64_ge_zero)
  with True show ?thesis by (simp add: max_def)
next
  case False
  then have "x \<le> 0" by simp
  then have "Math_max (Fin 0) (round64 x) = Fin 0"
    by (intro Math_max_zero_nonpos round64_nonpos)
  with False show ?thesis by (simp add: max_def round64_zero)
qed

lemma remaining_Fin:
  assumes "amountToPay c = Fin a" and "amountPaid c = Fin p"
  shows "amountRemaining (calculateCustomerDetails c) = round64 (max 0 (a - p))"
    and "overpayment (calculateCustomerDetails c) = round64 (max 0 (p - a))"
  by (simp_all add: details_amountRemaining details_overpayment assms js_sub_Fin
      Math_max_zero_round64)

lemma remaining_example_value:
  "amountRemaining (calculateCustomerDetails
      (example_customer 1 (Fin d_6422_94) (Fin d_1194_06)))
     = Fin (5749214360245370 / 2 ^ 40)"
proof -
  have "d_1194_06 \<le> d_6422_94"
    by (simp add: d_6422_94_def d_1194_06_def)
  then have "max 0 (d_6422_94 - d_1194_06) = d_6422_94 - d_1194_06"
    by simp
  then show ?thesis
    by (simp add: remaining_Fin [of _ d_6422_94 d_1194_06] example_amounts
        round64_difference)
qed

text \<open>
  Claim C5, as the specification states it: the remaining amount is the larger of 0
  and owed - paid. It fails for 1194.06 paid of 6422.94: the difference of the two
  doubles is not a double, and the code returns the double below it,
  5228.879999999999.
\<close>

theorem amountRemaining_counterexample:
  "amountRemaining (calculateCustomerDetails
      (example_customer 1 (Fin d_6422_94) (Fin d_1194_06)))
     \<noteq> Fin (max 0 (d_6422_94 - d_1194_06))"
  by (simp add: remaining_example_value) (simp add: d_6422_94_def d_1194_06_def)

text \<open>
  Claim C5, amended. The remaining amount is \<^verbatim>\<open>Math.max(0, owed - paid)\<close> and the
  overpayment \<^verbatim>\<open>Math.max(0, paid - owed)\<close> in the arithmetic of the code: for finite
  amounts, the larger of 0 and the exact difference, rounded to the nearest double.
\<close>

theorem amountRemaining_and_overpayment:
  "amountRemaining (calculateCustomerDetails c)
     = Math_max (Fin 0) (js_sub (amountToPay c) (amountPaid c))
   \<and> overpayment (calculateCustomerDetails c)
     = Math_max (Fin 0) (js_sub (amountPaid c) (amountToPay c))
   \<and> (amountToPay c = Fin a \<and> amountPaid c = Fin p \<longrightarrow>
          amountRemaining (calculateCustomerDetails c) = round64 (max 0 (a - p))
        \<and> overpayment (calculateCustomerDetails c) = round64 (max 0 (p - a)))"
  by (simp add: details_amountRemaining details_overpayment js_sub_Fin Math_max_zero_round64)

theorem amountRemaining_and_overpayment_witness:
  "amountRemaining (calculateCustomerDetails (example_customer 1 (Fin 100) (Fin 50))) = Fin 50
   \<and> overpayment (calculateCustomerDetails (example_customer 1 (Fin 100) (Fin 50))) = Fin 0"
proof -
  from amountRemaining_and_overpayment [of "example_customer 1 (Fin 100) (Fin 50)" 100 50]
  have "amountToPay (example_customer 1 (Fin 100) (Fin 50)) = Fin 100
      \<and> amountPaid (example_customer 1 (Fin 100) (Fin 50)) = Fin 50
    \<longrightarrow> amountRemaining (calculateCustomerDetails (example_customer 1 (Fin 100) (Fin 50)))
          = round64 (max 0 (100 - 50))
      \<and> overpayment (calculateCustomerDetails (example_customer 1 (Fin 100) (Fin 50)))
          = round64 (max 0 (50 - 100))"
    by blast
  then show ?thesis
    by (simp add: example_amounts round64_50 round64_zero)
qed

text \<open>
  Claim C6, as the specification states it: when the amount paid does not exceed
  the amount owed, remaining + paid is at least the amount owed. It fails for
  1194.06 paid of 6422.94: the remaining amount is 5228.879999999999, and the sum
  is below the amount owed, both as the exact sum of the two doubles and as the
  sum the code's addition returns, 6422.939999999999.
\<close>

theorem remaining_overpayment_counterexample:
  "js_ge (Fin d_6422_94) (Fin 0) \<and> js_ge (Fin d_1194_06) (Fin 0)
   \<and> js_le (Fin d_1194_06) (Fin d_6422_94)
   \<and> amountRemaining (calculateCustomerDetails
        (example_customer 1 (Fin d_6422_94) (Fin d_1194_06)))
       = Fin (5749214360245370 / 2 ^ 40)
   \<and> 5749214360245370 / 2 ^ 40 + d_1194_06 < d_6422_94
   \<and> \<not> js_ge (js_add (amountRemaining (calculateCustomerDetails
               (example_customer 1 (Fin d_6422_94) (Fin d_1194_06)))) (Fin d_1194_06))
          (Fin d_6422_94)"
proof -
  have readd: "js_add (Fin (5749214360245370 / 2 ^ 40)) (Fin d_1194_06)
      = Fin (7062097214507580 / 2 ^ 40)"
    unfolding js_add.simps by (rule round64_difference_back)
  have last: "\<not> js_ge (Fin (7062097214507580 / 2 ^ 40)) (Fin d_6422_94)"
    by (simp add: js_compare d_6422_94_def)
  have others: "js_ge (Fin d_6422_94) (Fin 0)" "js_ge (Fin d_1194_06) (Fin 0)"
    "js_le (Fin d_1194_06) (Fin d_6422_94)"
    "5749214360245370 / 2 ^ 40 + d_1194_06 < d_6422_94"
    by (simp_all add: js_compare d_6422_94_def d_1194_06_def)
  from last others show ?thesis
    by (simp only: remaining_example_value readd simp_thms)
qed

text \<open>
  Claim C6, amended. For a row whose two amounts are not negative, the remaining
  amount and the overpayment are never both positive, and the remaining amount is 0
  when more was paid than owed. When the amount paid does not exceed the amount
  owed and both are finite, remaining + paid falls short of the amount owed by no
  more than the rounding error of the subtraction: the fraction \<open>2 ^ -53\<close> of the
  exact difference (and \<open>2 ^ -1075\<close> for a difference below the normal numbers).
\<close>

theorem remaining_overpayment_relation:
  assumes "js_ge (amountToPay c) (Fin 0)" and "js_ge (amountPaid c) (Fin 0)"
  shows "\<not> (js_gt (amountRemaining (calculateCustomerDetails c)) (Fin 0)
            \<and> js_gt (overpayment (calculateCustomerDetails c)) (Fin 0))
       \<and> (js_gt (amountPaid c) (amountToPay c)
            \<longrightarrow> amountRemaining (calculateCustomerDetails c) = Fin 0)
       \<and> (amountToPay c = Fin a \<and> amountPaid c = Fin p \<and> p \<le> a
              \<and> amountRemaining (calculateCustomerDetails c) = Fin r
            \<longrightarrow> a - ((a - p) / 2 ^ 53 + 2 powi (- 1075)) \<le> r + p)"
proof -
  from assms(1) consider (inf) "amountToPay c = PInf" | (fin) x where "amountToPay c = Fin x"
    by (auto simp add: js_ge_zero_iff)
  then have "amountRemaining (calculateCustomerDetails c) = Fin 0
        \<or> (\<not> js_gt (amountPaid c) (amountToPay c)
            \<and> \<not> js_gt (overpayment (calculateCustomerDetails c)) (Fin 0))"
  proof cases
    case inf
    from assms(2) consider (pinf) "amountPaid c = PInf" | (pfin) y where "amountPaid c = Fin y"
      by (auto simp add: js_ge_zero_iff)
    then show ?thesis
    proof cases
      case pinf
      with inf show ?thesis
        by (simp add: details_overpayment js_sub_def Math_max_def js_compare)
    next
      case pfin
      with inf show ?thesis
        by (simp add: details_overpayment js_sub_def Math_max_def js_compare)
    qed
  next
    case fin
    from assms(2) consider (pinf) "amountPaid c = PInf" | (pfin) y where "amountPaid c = Fin y"
      by (auto simp add: js_ge_zero_iff)
    then show ?thesis
    proof cases
      case pinf
      with fin show ?thesis
        by (simp add: details_amountRemaining js_sub_def Math_max_def)
    next
      case pfin
      show ?thesis
      proof (cases "y \<le> x")
        case True
        with fin pfin show ?thesis
          by (simp add: remaining_Fin max_def round64_zero js_compare)
      next
        case False
        with fin pfin show ?thesis
          by (simp add: remaining_Fin max_def round64_zero)
      qed
    qed
  qed
  then have first: "\<not> (js_gt (amountRemaining (calculateCustomerDetails c)) (Fin 0)
            \<and> js_gt (overpayment (calculateCustomerDetails c)) (Fin 0))"
    and second: "js_gt (amountPaid c) (amountToPay c)
            \<longrightarrow> amountRemaining (calculateCustomerDetails c) = Fin 0"
    by (auto simp add: js_compare)
  have third: "amountToPay c = Fin a \<and> amountPaid c = Fin p \<and> p \<le> a
              \<and> amountRemaining (calculateCustomerDetails c) = Fin r
            \<longrightarrow> a - ((a - p) / 2 ^ 53 + 2 powi (- 1075)) \<le> r + p"
  proof
    assume h: "amountToPay c = Fin a \<and> amountPaid c = Fin p \<and> p \<le> a
      \<and> amountRemaining (calculateCustomerDetails c) = Fin r"
    then have fa: "amountToPay c = Fin a" and fp: "amountPaid c = Fin p" and le: "p \<le> a"
      and fr: "amountRemaining (calculateCustomerDetails c) = Fin r"
      by simp_all
    from remaining_Fin(1) [OF fa fp] fr le have "round64 (a - p) = Fin r"
      by (simp add: max_def)
    from round64_error [OF this] h
    have "\<bar>r - (a - p)\<bar> \<le> (a - p) / 2 ^ 53 + 2 powi (- 1075)"
      by simp
    then show "a - ((a - p) / 2 ^ 53 + 2 powi (- 1075)) \<le> r + p"
      by linarith
  qed
  from first second third show ?thesis by blast
qed

theorem remaining_overpayment_relation_witness:
  "\<not> (js_gt (amountRemaining (calculateCustomerDetails
            (example_customer 1 (Fin d_6422_94) (Fin d_1194_06)))) (Fin 0)
        \<and> js_gt (overpayment (calculateCustomerDetails
            (example_customer 1 (Fin d_6422_94) (Fin d_1194_06)))) (Fin 0))
   \<and> d_6422_94 - ((d_6422_94 - d_1194_06) / 2 ^ 53 + 2 powi (- 1075))
       \<le> 5749214360245370 / 2 ^ 40 + d_1194_06
   \<and> amountRemaining (calculateCustomerDetails (example_customer 1 (Fin 100) (Fin 150)))
       = Fin 0"
proof -
  have g1: "js_ge (amountToPay (example_customer 1 (Fin d_6422_94) (Fin d_1194_06))) (Fin 0)"
    and g2: "js_ge (amountPaid (example_customer 1 (Fin d_6422_94) (Fin d_1194_06))) (Fin 0)"
    by (simp_all add: example_amounts js_compare d_6422_94_def d_1194_06_def)
  note r1 = remaining_overpayment_relation [OF g1 g2, of d_6422_94 d_1194_06
      "5749214360245370 / 2 ^ 40"]
  have prem: "amountToPay (example_customer 1 (Fin d_6422_94) (Fin d_1194_06)) = Fin d_6422_94
      \<and> amountPaid (example_customer 1 (Fin d_6422_94) (Fin d_1194_06)) = Fin d_1194_06
      \<and> d_1194_06 \<le> d_6422_94
      \<and> amountRemaining (calculateCustomerDetails
          (example_customer 1 (Fin d_6422_94) (Fin d_1194_06)))
        = Fin (5749214360245370 / 2 ^ 40)"
    by (simp add: example_amounts remaining_example_value)
      (simp add: d_6422_94_def d_1194_06_def)
  from r1 prem have a:
    "\<not> (js_gt (amountRemaining (calculateCustomerDetails
            (example_customer 1 (Fin d_6422_94) (Fin d_1194_06)))) (Fin 0)
        \<and> js_gt (overpayment (calculateCustomerDetails
            (example_customer 1 (Fin d_6422_94) (Fin d_1194_06)))) (Fin 0))
     \<and> d_6422_94 - ((d_6422_94 - d_1194_06) / 2 ^ 53 + 2 powi (- 1075))
       \<le> 5749214360245370 / 2 ^ 40 + d_1194_06"
    by blast
  have g3: "js_ge (amountToPay (example_customer 1 (Fin 100) (Fin 150))) (Fin 0)"
    and g4: "js_ge (amountPaid (example_customer 1 (Fin 100) (Fin 150))) (Fin 0)"
    and g5: "js_gt (amountPaid (example_customer 1 (Fin 100) (Fin 150)))
        (amountToPay (example_customer 1 (Fin 100) (Fin 150)))"
    by (simp_all add: example_amounts js_compare)
  from remaining_overpayment_relation [OF g3 g4] g5 have b:
    "amountRemaining (calculateCustomerDetails (example_customer 1 (Fin 100) (Fin 150))) = Fin 0"
    by blast
  from a b show ?thesis by blast
qed

subsection \<open>Counts\<close>

lemma paymentStatus_valid:
  "paymentStatus (calculateCustomerDetails c)
     \<in> {''Not Paid'', ''Partially Paid'', ''Paid'', ''Overpaid''}"
  by (simp add: details_paymentStatus)

lemma count_status_total:
  assumes "\<forall>c \<in> set cs. paymentStatus c \<in> {''Not Paid'', ''Partially Paid'', ''Paid'', ''Overpaid''}"
  shows "count_status cs ''Not Paid'' + count_status cs ''Partially Paid''
           + count_status cs ''Paid'' + count_status cs ''Overpaid'' = length cs"
  using assms
proof (induction cs)
  case Nil
  show ?case by (simp add: count_status_def)
next
  case (Cons c cs)
  from Cons.prems have rest:
    "\<forall>c \<in> set cs. paymentStatus c \<in> {''Not Paid'', ''Partially Paid'', ''Paid'', ''Overpaid''}"
    by simp
  from Cons.prems have here:
    "paymentStatus c \<in> {''Not Paid'', ''Partially Paid'', ''Paid'', ''Overpaid''}"
    by simp
  from Cons.IH [OF rest] here show ?case
    by (auto simp add: count_status_def)
qed

lemma customers_data_subset:
  "set (customers_data rows status) \<subseteq> calculateCustomerDetails ` set rows"
  by (auto simp add: customers_data_def Let_def split: option.splits)

lemma customers_data_valid:
  "\<forall>c \<in> set (customers_data rows status).
     paymentStatus c \<in> {''Not Paid'', ''Partially Paid'', ''Paid'', ''Overpaid''}"
proof
  fix c
  assume "c \<in> set (customers_data rows status)"
  with customers_data_subset obtain r where "c = calculateCustomerDetails r"
    by blast
  then show "paymentStatus c \<in> {''Not Paid'', ''Partially Paid'', ''Paid'', ''Overpaid''}"
    using paymentStatus_valid [of r] by simp
qed

lemma statusCounts_of_sum:
  "sum_list (map snd (statusCounts_of cs))
     = count_status cs ''Not Paid'' + count_status cs ''Partially Paid''
       + count_status cs ''Paid'' + count_status cs ''Overpaid''"
  by (simp add: statusCounts_of_def)

lemma customers_summary_fields:
  "totalCustomers (customers_summary rows status) = length (customers_data rows status)"
  "statusCounts (customers_summary rows status) = statusCounts_of (customers_data rows status)"
  by (simp_all add: customers_summary_def Let_def)

lemma dashboard_summary_fields:
  "totalCustomers (dashboard_summary rows) = length rows"
  "statusCounts (dashboard_summary rows) = statusCounts_of (map calculateCustomerDetails rows)"
  by (simp_all add: dashboard_summary_def Let_def)

text \<open>
  Claim C8. For every list of rows, the four status counts add up to the total
  number of customers reported with them: in the summary of the customer list
  (whatever the status filter) and in the dashboard summary. The keys of the counts
  are the four status values.
\<close>

theorem statusCounts_sum_to_total:
  "sum_list (map snd (statusCounts (customers_summary rows status)))
     = totalCustomers (customers_summary rows status)
   \<and> map fst (statusCounts (customers_summary rows status)) = validStatuses
   \<and> sum_list (map snd (statusCounts (dashboard_summary rows)))
     = totalCustomers (dashboard_summary rows)
   \<and> map fst (statusCounts (dashboard_summary rows)) = validStatuses"
proof -
  have list: "sum_list (map snd (statusCounts (customers_summary rows status)))
      = totalCustomers (customers_summary rows status)"
    using count_status_total [OF customers_data_valid, of rows status]
    by (simp add: customers_summary_fields statusCounts_of_sum)
  have "\<forall>c \<in> set (map calculateCustomerDetails rows).
      paymentStatus c \<in> {''Not Paid'', ''Partially Paid'', ''Paid'', ''Overpaid''}"
    using paymentStatus_valid by auto
  from count_status_total [OF this]
  have dash: "sum_list (map snd (statusCounts (dashboard_summary rows)))
      = totalCustomers (dashboard_summary rows)"
    by (simp add: dashboard_summary_fields statusCounts_of_sum)
  have keys: "map fst (statusCounts_of cs) = validStatuses" for cs
    by (simp add: statusCounts_of_def validStatuses_def)
  from list dash keys show ?thesis
    by (simp add: customers_summary_fields dashboard_summary_fields)
qed

subsection \<open>The collection efficiency\<close>

lemma reduce_sum_foldl: "reduce_sum field xs = foldl js_add (Fin 0) (map field xs)"
  by (simp add: reduce_sum_def foldl_map)

lemma round_cents_zero: "round_cents (Fin 0) = Fin 0"
  by (simp add: round_cents_def round64_zero)

lemma dashboard_collectionEfficiency:
  "collectionEfficiency (dashboard_summary rows)
     = round_cents
         (if rows = [] then Fin 0
          else js_div
                 (reduce_sum paymentPercentage (sort_newest_first (map calculateCustomerDetails rows)))
                 (js_of_nat (length rows)))"
proof -
  have len: "length (sort_newest_first cs) = length cs" for cs
    by (simp add: sort_newest_first_def)
  then have nil: "sort_newest_first cs = [] \<longleftrightarrow> cs = []" for cs
    using length_0_conv by metis
  show ?thesis
    by (simp add: dashboard_summary_def Let_def len nil)
qed

lemma round64_third: "round64 (1 / 3) = Fin (6004799503160661 / 2 ^ 54)"
  using round64_at [of "- 2" "1 / 3" 6004799503160661]
  by (simp add: round_half_even_def power_int_minus)

lemma round64_third_100:
  "round64 (6004799503160661 / 2 ^ 54 * 100) = Fin (4691249611844266 / 2 ^ 47)"
  using round64_at [of 5 "6004799503160661 / 2 ^ 54 * 100" 4691249611844266]
  by (simp add: round_half_even_def power_int_minus)

lemma round64_pct_third: "round64 (4691249611844266 / 2 ^ 47) = Fin (4691249611844266 / 2 ^ 47)"
  using round64_at [of 5 "4691249611844266 / 2 ^ 47" 4691249611844266]
  by (simp add: round_half_even_def power_int_minus)

lemma round64_pct_third_100:
  "round64 (4691249611844266 / 2 ^ 47 * 100) = Fin (7330077518506666 / 2 ^ 41)"
  using round64_at [of 11 "4691249611844266 / 2 ^ 47 * 100" 7330077518506666]
  by (simp add: round_half_even_def power_int_minus)

lemma round64_33_33: "round64 (3333 / 100) = Fin (4690780486883082 / 2 ^ 47)"
  using round64_at [of 5 "3333 / 100" 4690780486883082]
  by (simp add: round_half_even_def power_int_minus)

lemma percentage_1_of_3:
  "paymentPercentage (calculateCustomerDetails (example_customer 1 (Fin 3) (Fin 1)))
     = Fin (4691249611844266 / 2 ^ 47)"
  by (simp add: details_paymentPercentage example_amounts js_compare Math_min_def
      round64_third round64_third_100 [simplified])

lemma collectionEfficiency_1_of_3:
  "collectionEfficiency (dashboard_summary [example_customer 1 (Fin 3) (Fin 1)])
     = Fin (4690780486883082 / 2 ^ 47)"
  by (simp add: dashboard_collectionEfficiency reduce_sum_def sort_newest_first_def
      percentage_1_of_3 [simplified] js_of_nat_def round64_1 round_cents_def
      round64_pct_third [simplified] round64_pct_third_100 [simplified]
      round64_33_33 [simplified])

text \<open>
  Claim C9, as the specification states it: the collection efficiency is the
  arithmetic mean of the percentages. It fails for one customer who paid 1 of 3:
  the only percentage, and so the mean, is 33.33333333333333, and the handler
  reports 33.33.
\<close>

theorem collectionEfficiency_mean_counterexample:
  "paymentPercentage (calculateCustomerDetails (example_customer 1 (Fin 3) (Fin 1)))
     = Fin (4691249611844266 / 2 ^ 47)
   \<and> collectionEfficiency (dashboard_summary [example_customer 1 (Fin 3) (Fin 1)])
     \<noteq> Fin (spec_arithmetic_mean [4691249611844266 / 2 ^ 47])"
  by (simp add: percentage_1_of_3 [simplified] collectionEfficiency_1_of_3 [simplified]
      spec_arithmetic_mean_def)

text \<open>
  The rounding to two decimals is itself done in doubles. One customer who paid 23
  of 160 has the percentage 14.374999999999998 and the efficiency 14.37, where the
  exact percentage 14.375 would round to 14.38; and the double 0.015, times 100, is
  the double 1.5, which rounds to 0.02.
\<close>

lemma round64_pct_23_160:
  "round64 (8092405580431359 / 2 ^ 49) = Fin (8092405580431359 / 2 ^ 49)"
  using round64_at [of 3 "8092405580431359 / 2 ^ 49" 8092405580431359]
  by (simp add: round_half_even_def power_int_minus)

lemma round64_pct_23_160_100:
  "round64 (8092405580431359 / 2 ^ 49 * 100) = Fin (6322191859711999 / 2 ^ 42)"
  using round64_at [of 10 "8092405580431359 / 2 ^ 49 * 100" 6322191859711999]
  by (simp add: round_half_even_def power_int_minus)

lemma round64_14_37: "round64 (1437 / 100) = Fin (8089590830664253 / 2 ^ 49)"
  using round64_at [of 3 "1437 / 100" 8089590830664253]
  by (simp add: round_half_even_def power_int_minus)

lemma collectionEfficiency_23_of_160:
  "collectionEfficiency (dashboard_summary [example_customer 1 (Fin 160) (Fin 23)])
     = Fin (8089590830664253 / 2 ^ 49)"
  "round64 (1437 / 100) = Fin (8089590830664253 / 2 ^ 49)"
  by (simp_all add: dashboard_collectionEfficiency reduce_sum_def sort_newest_first_def
      paymentPercentage_example_values [simplified] js_of_nat_def round64_1 round_cents_def
      round64_pct_23_160 [simplified] round64_pct_23_160_100 [simplified]
      round64_14_37 [simplified])

lemma round64_0_015: "round64 (15 / 1000) = Fin (8646911284551352 / 2 ^ 59)"
  using round64_at [of "- 7" "15 / 1000" 8646911284551352]
  by (simp add: round_half_even_def power_int_minus)

lemma round64_0_015_100: "round64 (8646911284551352 / 2 ^ 59 * 100) = Fin (3 / 2)"
  using round64_at [of 0 "8646911284551352 / 2 ^ 59 * 100" 6755399441055744]
  by (simp add: round_half_even_def power_int_minus)

lemma round64_0_02: "round64 (2 / 100) = Fin (5764607523034235 / 2 ^ 58)"
  using round64_at [of "- 6" "2 / 100" 5764607523034235]
  by (simp add: round_half_even_def power_int_minus)

lemma round_cents_0_015:
  "round_cents (Fin (8646911284551352 / 2 ^ 59)) = Fin (5764607523034235 / 2 ^ 58)"
  by (simp add: round_cents_def round64_0_015_100 [simplified] round64_0_02 [simplified])

text \<open>
  Claim C9, amended. The collection efficiency is the mean of the percentages as
  the handler computes it, rounded to two decimals by
  \<^verbatim>\<open>Math.round(mean * 100) / 100\<close>, and 0 when there is no row. The mean is the sum of
  the percentages of the rows sorted newest first, added from left to right,
  divided by their number; the sum, the quotient, the product with 100 and the
  quotient by 100 are each rounded to the nearest double.
\<close>

theorem collectionEfficiency_rounded_mean:
  "collectionEfficiency (dashboard_summary rows)
     = (if rows = [] then Fin 0
        else round_cents
               (double_mean
                  (map paymentPercentage
                     (sort_newest_first (map calculateCustomerDetails rows)))))"
proof -
  have "length (sort_newest_first cs) = length cs" for cs
    by (simp add: sort_newest_first_def)
  then show ?thesis
    by (simp add: dashboard_collectionEfficiency reduce_sum_foldl double_mean_def
        round_cents_zero)
qed

subsection \<open>The payment mutation\<close>

lemma js_ge_zero_not_lt: "js_ge a (Fin 0) \<Longrightarrow> \<not> js_lt a (Fin 0)"
  by (auto simp add: js_ge_zero_iff)

text \<open>
  Adding two amounts that are not negative gives an amount that is not negative:
  the addition never makes a \<^verbatim>\<open>NaN\<close> of them.
\<close>

lemma js_add_ge_zero:
  assumes "js_ge a (Fin 0)" and "js_ge b (Fin 0)"
  shows "js_ge (js_add a b) (Fin 0)"
proof -
  from assms consider "a = PInf" | "b = PInf"
    | x y where "a = Fin x" "b = Fin y" "0 \<le> x" "0 \<le> y"
    by (auto simp add: js_ge_zero_iff)
  then show ?thesis
  proof cases
    case 1
    with assms(2) show ?thesis by (auto simp add: js_ge_zero_iff)
  next
    case 2
    with assms(1) show ?thesis by (auto simp add: js_ge_zero_iff)
  next
    case 3
    then show ?thesis by (simp add: round64_ge_zero)
  qed
qed

lemma db_get_after_update:
  assumes "db_get table i = Some c"
  shows "db_get (db_update_amountPaid table v now i) i
           = Some (c\<lparr>amountPaid := v, updatedAt := now\<rparr>)"
  using assms
  by (induction table) (auto simp add: db_get_def db_update_amountPaid_def)

lemma db_get_other_after_update:
  assumes "j \<noteq> i"
  shows "db_get (db_update_amountPaid table v now i) j = db_get table j"
  using assms
  by (induction table) (auto simp add: db_get_def db_update_amountPaid_def)

text \<open>The amount the handler stores, given the body's type and the request's amount.\<close>

lemma patch_payment_success:
  assumes "i \<noteq> 0" and "db_get table i = Some c"
    and "paymentAmount body = Some (JNum a)" and "\<not> js_lt a (Fin 0)"
  shows "\<exists>response.
           patch_payment now table (Some i) body
             = (Inr response,
                db_update_amountPaid table
                  (if paymentType body = Some (JStr ''set'') then a
                   else js_add (amountPaid c) a) now i)
           \<and> amountPaid (data response)
               = (if paymentType body = Some (JStr ''set'') then a
                  else js_add (amountPaid c) a)"
proof (cases "paymentType body = Some (JStr ''set'')")
  case True
  with assms show ?thesis
    by (simp add: patch_payment_def Let_def db_get_after_update details_amountPaid)
next
  case False
  then have "(case paymentType body of None \<Rightarrow> JStr ''add'' | Some v \<Rightarrow> v) \<noteq> JStr ''set''"
    by (cases "paymentType body") simp_all
  with assms False show ?thesis
    by (simp add: patch_payment_def Let_def db_get_after_update details_amountPaid)
qed

lemma patch_payment_outcome:
  assumes "i \<noteq> 0" and "db_get table i = Some c"
    and "paymentAmount body = Some (JNum a)" and "\<not> js_lt a (Fin 0)"
  shows "accepted (fst (patch_payment now table (Some i) body))"
    and "response_amountPaid (fst (patch_payment now table (Some i) body))
           = Some (if paymentType body = Some (JStr ''set'') then a
                   else js_add (amountPaid c) a)"
    and "stored_amountPaid (snd (patch_payment now table (Some i) body)) i
           = Some (if paymentType body = Some (JStr ''set'') then a
                   else js_add (amountPaid c) a)"
    and "snd (patch_payment now table (Some i) body)
           = db_update_amountPaid table
               (if paymentType body = Some (JStr ''set'') then a
                else js_add (amountPaid c) a) now i"
proof -
  from patch_payment_success [OF assms, of now] obtain response where
    run: "patch_payment now table (Some i) body
            = (Inr response,
               db_update_amountPaid table
                 (if paymentType body = Some (JStr ''set'') then a
                  else js_add (amountPaid c) a) now i)"
    and paid: "amountPaid (data response)
            = (if paymentType body = Some (JStr ''set'') then a
               else js_add (amountPaid c) a)"
    by blast
  show "accepted (fst (patch_payment now table (Some i) body))"
    by (simp add: run accepted_def)
  show "response_amountPaid (fst (patch_payment now table (Some i) body))
          = Some (if paymentType body = Some (JStr ''set'') then a
                  else js_add (amountPaid c) a)"
    by (simp add: run response_amountPaid_def paid)
  show "stored_amountPaid (snd (patch_payment now table (Some i) body)) i
          = Some (if paymentType body = Some (JStr ''set'') then a
                  else js_add (amountPaid c) a)"
    by (simp add: run stored_amountPaid_def db_get_after_update [OF assms(2)])
  show "snd (patch_payment now table (Some i) body)
           = db_update_amountPaid table
               (if paymentType body = Some (JStr ''set'') then a
                else js_add (amountPaid c) a) now i"
    by (simp add: run)
qed

lemma example_table:
  "db_get [example_customer 1 t p] 1 = Some (example_customer 1 t p)"
  by (simp add: db_get_def example_amounts)

text \<open>
  Claim C7, as the specification states it: the type \<^verbatim>\<open>add\<close> stores the current
  amount paid plus the payment amount. It fails for a row that stores
  9007199254740992 (\<open>2 ^ 53\<close>) and a payment of 1: the handler accepts the request
  and stores 9007199254740992 again, since the sum is not a double.
\<close>

theorem payment_add_counterexample:
  "accepted (fst (patch_payment 2000 [example_customer 1 (Fin (2 ^ 54)) (Fin (2 ^ 53))] (Some 1)
        \<lparr>paymentAmount = Some (JNum (Fin 1)), paymentType = Some (JStr ''add'')\<rparr>))
   \<and> stored_amountPaid
       (snd (patch_payment 2000 [example_customer 1 (Fin (2 ^ 54)) (Fin (2 ^ 53))] (Some 1)
          \<lparr>paymentAmount = Some (JNum (Fin 1)), paymentType = Some (JStr ''add'')\<rparr>)) 1
       = Some (Fin (2 ^ 53))
   \<and> stored_amountPaid
       (snd (patch_payment 2000 [example_customer 1 (Fin (2 ^ 54)) (Fin (2 ^ 53))] (Some 1)
          \<lparr>paymentAmount = Some (JNum (Fin 1)), paymentType = Some (JStr ''add'')\<rparr>)) 1
       \<noteq> Some (Fin (2 ^ 53 + 1))"
proof -
  have "js_add (Fin (2 ^ 53)) (Fin 1) = Fin (2 ^ 53)"
    unfolding js_add.simps by (rule round64_above_2_53)
  then show ?thesis
    using patch_payment_outcome [of 1 "[example_customer 1 (Fin (2 ^ 54)) (Fin (2 ^ 53))]"
      "example_customer 1 (Fin (2 ^ 54)) (Fin (2 ^ 53))"
      "\<lparr>paymentAmount = Some (JNum (Fin 1)), paymentType = Some (JStr ''add'')\<rparr>" "Fin 1" 2000]
    by (simp add: example_table example_amounts)
qed

text \<open>
  Claim C7, amended. For a request the handler accepts against an existing row
  (the amount stored and the payment amount not negative), the
  type \<^verbatim>\<open>add\<close> stores the sum of the current amount paid and the payment amount as
  the addition of the code returns it: for finite amounts the exact sum rounded to the
  nearest double, so 50 and 30 give 80. The type \<^verbatim>\<open>set\<close> stores the payment amount
  whatever the current amount is. The response carries the same amount.
\<close>

theorem payment_add_and_set:
  assumes "i \<noteq> 0" and "db_get table i = Some c" and "js_ge (amountPaid c) (Fin 0)"
    and "paymentAmount body = Some (JNum a)" and "js_ge a (Fin 0)"
  shows "(paymentType body = Some (JStr ''add'') \<longrightarrow>
            accepted (fst (patch_payment now table (Some i) body))
          \<and> stored_amountPaid (snd (patch_payment now table (Some i) body)) i
              = Some (js_add (amountPaid c) a)
          \<and> response_amountPaid (fst (patch_payment now table (Some i) body))
              = Some (js_add (amountPaid c) a))
       \<and> (paymentType body = Some (JStr ''set'') \<longrightarrow>
            accepted (fst (patch_payment now table (Some i) body))
          \<and> stored_amountPaid (snd (patch_payment now table (Some i) body)) i = Some a
          \<and> response_amountPaid (fst (patch_payment now table (Some i) body)) = Some a)
       \<and> (amountPaid c = Fin x \<and> a = Fin y \<longrightarrow> js_add (amountPaid c) a = round64 (x + y))"
proof -
  from assms(5) have "\<not> js_lt a (Fin 0)"
    by (rule js_ge_zero_not_lt)
  from patch_payment_outcome(1-3) [OF assms(1,2,4) this, of now] show ?thesis
    by simp
qed

theorem payment_add_and_set_witness:
  "stored_amountPaid
     (snd (patch_payment 2000 [example_customer 1 (Fin 100) (Fin 50)] (Some 1)
        \<lparr>paymentAmount = Some (JNum (Fin 30)), paymentType = Some (JStr ''add'')\<rparr>)) 1
     = Some (Fin 80)
   \<and> stored_amountPaid
     (snd (patch_payment 2000 [example_customer 1 (Fin 100) (Fin 50)] (Some 1)
        \<lparr>paymentAmount = Some (JNum (Fin 30)), paymentType = Some (JStr ''set'')\<rparr>)) 1
     = Some (Fin 30)"
  using payment_add_and_set [of 1 "[example_customer 1 (Fin 100) (Fin 50)]"
      "example_customer 1 (Fin 100) (Fin 50)"
      "\<lparr>paymentAmount = Some (JNum (Fin 30)), paymentType = Some (JStr ''add'')\<rparr>"
      "Fin 30" 2000 50 30]
    payment_add_and_set [of 1 "[example_customer 1 (Fin 100) (Fin 50)]"
      "example_customer 1 (Fin 100) (Fin 50)"
      "\<lparr>paymentAmount = Some (JNum (Fin 30)), paymentType = Some (JStr ''set'')\<rparr>"
      "Fin 30" 2000 50 30]
  by (simp add: example_table example_amounts round64_80 js_compare)

text \<open>
  Claim C10, as it is stated: every payment type but \<^verbatim>\<open>set\<close> stores the current
  amount paid plus the payment amount. The branch is taken as the claim says, but the
  amount stored is the rounded sum: a body without a payment type that pays 0.2 on a
  row that stores 0.1 is accepted and stores 0.30000000000000004, which is not the sum
  of the two doubles.
\<close>

theorem payment_type_counterexample:
  "accepted (fst (patch_payment 2000 [example_customer 1 (Fin 1) (Fin d_0_1)] (Some 1)
        \<lparr>paymentAmount = Some (JNum (Fin d_0_2)), paymentType = None\<rparr>))
   \<and> stored_amountPaid
       (snd (patch_payment 2000 [example_customer 1 (Fin 1) (Fin d_0_1)] (Some 1)
          \<lparr>paymentAmount = Some (JNum (Fin d_0_2)), paymentType = None\<rparr>)) 1
       = Some (Fin (5404319552844596 / 2 ^ 54))
   \<and> stored_amountPaid
       (snd (patch_payment 2000 [example_customer 1 (Fin 1) (Fin d_0_1)] (Some 1)
          \<lparr>paymentAmount = Some (JNum (Fin d_0_2)), paymentType = None\<rparr>)) 1
       \<noteq> Some (Fin (d_0_1 + d_0_2))"
proof -
  have sum: "js_add (Fin d_0_1) (Fin d_0_2) = Fin (5404319552844596 / 2 ^ 54)"
    unfolding js_add.simps by (rule round64_tenth_fifth)
  have pos: "\<not> js_lt (Fin d_0_2) (Fin 0)"
    by (simp add: d_0_2_def)
  have ne: "5404319552844596 / 2 ^ 54 \<noteq> d_0_1 + d_0_2"
    by (simp add: d_0_1_def d_0_2_def)
  from patch_payment_outcome [of 1 "[example_customer 1 (Fin 1) (Fin d_0_1)]"
      "example_customer 1 (Fin 1) (Fin d_0_1)"
      "\<lparr>paymentAmount = Some (JNum (Fin d_0_2)), paymentType = None\<rparr>" "Fin d_0_2" 2000]
    pos sum ne
  show ?thesis
    by (simp add: example_table example_amounts)
qed

text \<open>
  Claim C10, amended. For a request the handler accepts against an existing row
  (the amount stored and the payment amount not negative),
  every payment type but the string \<^verbatim>\<open>set\<close> (a body without the field, a string
  that is no payment type, a value that is no string) adds: the handler accepts the
  request and stores what the same request with the type \<^verbatim>\<open>add\<close> stores, the sum of
  the current amount paid and the payment amount as the addition of the code returns
  it (for finite amounts the exact sum rounded to the nearest double).
\<close>

theorem payment_type_defaults_to_add:
  assumes "i \<noteq> 0" and "db_get table i = Some c" and "js_ge (amountPaid c) (Fin 0)"
    and "paymentAmount body = Some (JNum a)" and "js_ge a (Fin 0)"
    and "paymentType body \<noteq> Some (JStr ''set'')"
  shows "accepted (fst (patch_payment now table (Some i) body))
       \<and> stored_amountPaid (snd (patch_payment now table (Some i) body)) i
           = Some (js_add (amountPaid c) a)
       \<and> response_amountPaid (fst (patch_payment now table (Some i) body))
           = Some (js_add (amountPaid c) a)
       \<and> snd (patch_payment now table (Some i) body)
           = snd (patch_payment now table (Some i)
                    (body\<lparr>paymentType := Some (JStr ''add'')\<rparr>))
       \<and> (amountPaid c = Fin x \<and> a = Fin y \<longrightarrow> js_add (amountPaid c) a = round64 (x + y))"
proof -
  from assms(5) have ok: "\<not> js_lt a (Fin 0)"
    by (rule js_ge_zero_not_lt)
  have amount: "paymentAmount (body\<lparr>paymentType := Some (JStr ''add'')\<rparr>) = Some (JNum a)"
    using assms(4) by simp
  note given = patch_payment_outcome [OF assms(1,2,4) ok, of now]
  note explicit = patch_payment_outcome(4) [OF assms(1,2) amount ok, of now]
  from given explicit assms(6) show ?thesis by simp
qed

theorem payment_type_defaults_to_add_witness:
  "accepted (fst (patch_payment 2000 [example_customer 1 (Fin 100) (Fin 50)] (Some 1)
        \<lparr>paymentAmount = Some (JNum (Fin 30)), paymentType = None\<rparr>))
   \<and> stored_amountPaid
     (snd (patch_payment 2000 [example_customer 1 (Fin 100) (Fin 50)] (Some 1)
        \<lparr>paymentAmount = Some (JNum (Fin 30)), paymentType = None\<rparr>)) 1 = Some (Fin 80)
   \<and> stored_amountPaid
     (snd (patch_payment 2000 [example_customer 1 (Fin 100) (Fin 50)] (Some 1)
        \<lparr>paymentAmount = Some (JNum (Fin 30)), paymentType = Some (JStr ''replace'')\<rparr>)) 1
     = Some (Fin 80)
   \<and> stored_amountPaid
     (snd (patch_payment 2000 [example_customer 1 (Fin 100) (Fin 50)] (Some 1)
        \<lparr>paymentAmount = Some (JNum (Fin 30)), paymentType = Some JNull\<rparr>)) 1
     = Some (Fin 80)"
proof -
  have id: "(1::int) \<noteq> 0"
    by simp
  have row: "db_get [example_customer 1 (Fin 100) (Fin 50)] 1
      = Some (example_customer 1 (Fin 100) (Fin 50))"
    by (rule example_table)
  have amt: "js_ge (Fin 30) (Fin 0)"
    and paid: "js_ge (amountPaid (example_customer 1 (Fin 100) (Fin 50))) (Fin 0)"
    by (simp_all add: example_amounts js_compare)
  have sum: "js_add (amountPaid (example_customer 1 (Fin 100) (Fin 50))) (Fin 30) = Fin 80"
    by (simp add: example_amounts round64_80)
  have pa: "paymentAmount \<lparr>paymentAmount = Some (JNum (Fin 30)), paymentType = t\<rparr>
      = Some (JNum (Fin 30))" for t
    by simp
  have absent: "paymentType \<lparr>paymentAmount = Some (JNum (Fin 30)), paymentType = None\<rparr>
      \<noteq> Some (JStr ''set'')"
    and other: "paymentType
        \<lparr>paymentAmount = Some (JNum (Fin 30)), paymentType = Some (JStr ''replace'')\<rparr>
      \<noteq> Some (JStr ''set'')"
    and null: "paymentType \<lparr>paymentAmount = Some (JNum (Fin 30)), paymentType = Some JNull\<rparr>
      \<noteq> Some (JStr ''set'')"
    by simp_all
  from payment_type_defaults_to_add [OF id row paid pa amt absent, of 2000]
  have a: "accepted (fst (patch_payment 2000 [example_customer 1 (Fin 100) (Fin 50)] (Some 1)
        \<lparr>paymentAmount = Some (JNum (Fin 30)), paymentType = None\<rparr>))
     \<and> stored_amountPaid
     (snd (patch_payment 2000 [example_customer 1 (Fin 100) (Fin 50)] (Some 1)
        \<lparr>paymentAmount = Some (JNum (Fin 30)), paymentType = None\<rparr>)) 1 = Some (Fin 80)"
    unfolding sum by blast
  from payment_type_defaults_to_add [OF id row paid pa amt other, of 2000]
  have b: "stored_amountPaid
     (snd (patch_payment 2000 [example_customer 1 (Fin 100) (Fin 50)] (Some 1)
        \<lparr>paymentAmount = Some (JNum (Fin 30)), paymentType = Some (JStr ''replace'')\<rparr>)) 1
     = Some (Fin 80)"
    unfolding sum by blast
  from payment_type_defaults_to_add [OF id row paid pa amt null, of 2000]
  have c: "stored_amountPaid
     (snd (patch_payment 2000 [example_customer 1 (Fin 100) (Fin 50)] (Some 1)
        \<lparr>paymentAmount = Some (JNum (Fin 30)), paymentType = Some JNull\<rparr>)) 1
     = Some (Fin 80)"
    unfolding sum by blast
  from a b c show ?thesis by blast
qed

text \<open>
  Claim C2 says a payment amount of 0 is rejected and the stored row is left as it
  was. The handler rejects only an amount below 0: a request that sets the amount
  paid to 0 is accepted, and the row that stored 50 stores 0 after it.
\<close>

theorem payment_amount_zero_accepted:
  "accepted (fst (patch_payment 2000 [example_customer 1 (Fin 100) (Fin 50)] (Some 1)
        \<lparr>paymentAmount = Some (JNum (Fin 0)), paymentType = Some (JStr ''set'')\<rparr>))
   \<and> stored_amountPaid [example_customer 1 (Fin 100) (Fin 50)] 1 = Some (Fin 50)
   \<and> stored_amountPaid
     (snd (patch_payment 2000 [example_customer 1 (Fin 100) (Fin 50)] (Some 1)
        \<lparr>paymentAmount = Some (JNum (Fin 0)), paymentType = Some (JStr ''set'')\<rparr>)) 1
     = Some (Fin 0)"
  by (simp add: patch_payment_def Let_def db_get_def db_update_amountPaid_def
      example_amounts accepted_def stored_amountPaid_def)

text \<open>
  A payment amount below 0, and an amount that is no number, are rejected with a
  validation error, and the table is left as it was.
\<close>

lemma payment_amount_negative_rejected:
  assumes "i \<noteq> 0" and "paymentAmount body = Some (JNum a)" and "js_lt a (Fin 0)"
  shows "patch_payment now table (Some i) body
           = (Inl (ValidationError ''Payment amount must be a positive number''), table)"
  using assms by (simp add: patch_payment_def Let_def)

lemma payment_amount_negative_rejected_witness:
  "patch_payment 2000 [example_customer 1 (Fin 100) (Fin 50)] (Some 1)
       \<lparr>paymentAmount = Some (JNum (Fin (- 5))), paymentType = Some (JStr ''add'')\<rparr>
     = (Inl (ValidationError ''Payment amount must be a positive number''),
        [example_customer 1 (Fin 100) (Fin 50)])"
  using payment_amount_negative_rejected [of 1
      "\<lparr>paymentAmount = Some (JNum (Fin (- 5))), paymentType = Some (JStr ''add'')\<rparr>"
      "Fin (- 5)" 2000 "[example_customer 1 (Fin 100) (Fin 50)]"]
  by simp

end
